theory Spec2Isabelle
  imports Main
begin

section \<open>Values shared by all revisions of main.go\<close>

text \<open>
  The repository holds three revisions of one Go file. \<^verbatim>\<open>src/main.go\<close> is the oldest:
  its halts carry eight strings and its watch loop remembers a set of symbols. The two
  revisions in \<^verbatim>\<open>src/unnamed/part_001\<close> parse timestamps and remember the last record of
  every symbol; the second of them also reads the Last-Modified header. The functions
  \<open>parseTradeHalts\<close>, \<open>tryUnquote\<close>, \<open>displayHaltsTable\<close> and the body of the watch loop are
  the same text in both revisions of part_001. Definitions taken from \<^verbatim>\<open>src/main.go\<close>
  carry the suffix \<open>_main\<close>.
\<close>

subsection \<open>Errors, panics and results\<close>

text \<open>
  A Go \<open>error\<close> value is either produced by a library call (\<open>LibError\<close> with the
  library's message), or built by \<open>fmt.Errorf(prefix + ": %w", err)\<close>, or is the
  \<open>bad status code: %d\<close> error. A panic is not an error value: it unwinds through every
  caller, so it is a result of its own.
\<close>

datatype error =
    LibError string
  | Errorf string error
  | BadStatusCode int

datatype 'a result =
    Ok 'a
  | Err error
  | Panic string

subsection \<open>time.Time\<close>

text \<open>
  \<open>time.Time\<close> is the struct \<open>{wall uint64; ext int64; loc *Location}\<close>. None of the
  values here carries a monotonic clock reading, so \<open>wall\<close> holds the nanoseconds and
  \<open>ext\<close> the seconds since January 1 of year 1, UTC; \<open>loc\<close> is the location pointer
  (\<open>None\<close> for nil), a location being known by its name. Go's \<open>==\<close> and \<open>!=\<close> on
  \<open>time.Time\<close> compare the three fields, which is equality of this record.
\<close>

type_synonym Location = string

record Time =
  wall :: nat
  ext :: int
  loc :: "Location option"

definition zeroTime :: Time where
  \<comment> \<open>the value of \<open>var t time.Time\<close> and of \<open>time.Time{}\<close>\<close>
  "zeroTime = \<lparr>wall = 0, ext = 0, loc = None\<rparr>"

definition IsZero :: "Time \<Rightarrow> bool" where
  \<comment> \<open>\<open>t.sec() == 0 && t.nsec() == 0\<close>\<close>
  "IsZero t = (ext t = 0 \<and> wall t = 0)"

definition nyseLocation :: Location where
  "nyseLocation = ''America/New_York''"

subsection \<open>The library calls the program makes\<close>

text \<open>
  The program calls four functions of Go's standard library on values it computes. They
  are parameters of the model, so every theorem holds for whatever these functions
  return:
  \<^item> \<open>ParseInLocation layout value\<close> is \<open>time.ParseInLocation(layout, value, nyseLocation)\<close>,
    \<open>Inl\<close> carrying the error's message;
  \<^item> \<open>Unquote s\<close> is \<open>strconv.Unquote(s)\<close>, \<open>None\<close> for an error;
  \<^item> \<open>Parse layout value\<close> is \<open>time.Parse(layout, value)\<close>;
  \<^item> \<open>LocalFormat layout t\<close> is \<open>t.Local().Format(layout)\<close>.
\<close>

record library =
  ParseInLocation :: "string \<Rightarrow> string \<Rightarrow> string + Time"
  Unquote :: "string \<Rightarrow> string option"
  Parse :: "string \<Rightarrow> string \<Rightarrow> string + Time"
  LocalFormat :: "string \<Rightarrow> Time \<Rightarrow> string"

definition layoutDateTime :: string where
  "layoutDateTime = ''2006-01-02 15:04:05''"

definition RFC1123 :: string where
  "RFC1123 = ''Mon, 02 Jan 2006 15:04:05 MST''"

definition RFC1123Z :: string where
  "RFC1123Z = ''Mon, 02 Jan 2006 15:04:05 -0700''"

section \<open>The feed parser of part_001\<close>

record TradeHalt =
  Symbol :: string
  Name :: string
  Exchange :: string
  Reason :: string
  HaltDateTime :: Time
  ResumeDateTime :: Time

definition tryUnquote :: "library \<Rightarrow> string \<Rightarrow> string" where
  "tryUnquote lib s = (case Unquote lib s of None \<Rightarrow> s | Some unquoted \<Rightarrow> unquoted)"

text \<open>
  One date/time pair of a row. \<open>what\<close> is \<open>halt\<close> or \<open>resume\<close>, \<open>symbol\<close> is
  \<open>record[2]\<close>. The variable starts as the zero time; \<open>time.ParseInLocation\<close> is called
  only when both sub-fields are non-empty, and on an error it returns \<open>time.Time{}\<close>
  beside the error, which the code assigns and then logs. The result is the timestamp and
  the lines written with \<open>log.Printf\<close>.
\<close>

definition parseDateTime :: "library \<Rightarrow> string \<Rightarrow> string \<Rightarrow> string \<Rightarrow> string \<Rightarrow> Time \<times> string list" where
  "parseDateTime lib what symbol d t =
     (if d \<noteq> [] \<and> t \<noteq> [] then
        (case ParseInLocation lib layoutDateTime (d @ '' '' @ t) of
           Inr parsed \<Rightarrow> (parsed, [])
         | Inl err \<Rightarrow>
             (zeroTime, [''failed to parse '' @ what @ '' datetime for '' @ symbol @ '': '' @ err]))
      else (zeroTime, []))"

text \<open>The body of the loop for a row of eight fields: the record appended and the log lines.\<close>

definition parseRecord :: "library \<Rightarrow> string list \<Rightarrow> TradeHalt \<times> string list" where
  "parseRecord lib rec =
     (let (haltDateTime, log1) = parseDateTime lib ''halt'' (rec ! 2) (rec ! 0) (rec ! 1);
          (resumeDateTime, log2) = parseDateTime lib ''resume'' (rec ! 2) (rec ! 6) (rec ! 7)
      in (\<lparr>Symbol = rec ! 2,
           Name = tryUnquote lib (rec ! 3),
           Exchange = rec ! 4,
           Reason = rec ! 5,
           HaltDateTime = haltDateTime,
           ResumeDateTime = resumeDateTime\<rparr>, log1 @ log2))"

text \<open>
  \<open>for i, record := range records\<close>: index 0 is skipped, a row whose length is not 8
  panics, any other row is parsed and appended. The state is the slice \<open>halts\<close> and the
  log written so far; the log survives a panic.
\<close>

fun parseLoop :: "library \<Rightarrow> nat \<Rightarrow> string list list \<Rightarrow> TradeHalt list \<Rightarrow> string list
    \<Rightarrow> TradeHalt list result \<times> string list" where
  "parseLoop lib i [] halts logs = (Ok halts, logs)"
| "parseLoop lib i (rec # records) halts logs =
     (if i = 0 then parseLoop lib (Suc i) records halts logs
      else if length rec \<noteq> 8 then (Panic ''malformed record'', logs)
      else (case parseRecord lib rec of
              (halt, lines) \<Rightarrow> parseLoop lib (Suc i) records (halts @ [halt]) (logs @ lines)))"

text \<open>
  \<open>parseTradeHalts\<close>. Its argument is what \<open>csvReader.ReadAll()\<close> returns on the
  reader: the rows, each a list of fields, or the reader's error.
\<close>

definition parseTradeHalts :: "library \<Rightarrow> error + string list list \<Rightarrow> TradeHalt list result \<times> string list" where
  "parseTradeHalts lib readAll =
     (case readAll of
        Inl err \<Rightarrow> (Err (Errorf ''failed to read csv'' err), [])
      | Inr records \<Rightarrow>
          if length records < 2 then (Ok [], [])
          else parseLoop lib 0 records [] [])"

section \<open>The feed parser of main.go\<close>

record TradeHalt_main =
  HaltDate :: string
  HaltTime :: string
  Symbol_main :: string
  Name_main :: string
  Exchange_main :: string
  Reason_main :: string
  ResumeDate :: string
  NYSETime :: string

fun parseLoop_main :: "nat \<Rightarrow> string list list \<Rightarrow> TradeHalt_main list \<Rightarrow> TradeHalt_main list result" where
  "parseLoop_main i [] halts = Ok halts"
| "parseLoop_main i (rec # records) halts =
     (if i = 0 then parseLoop_main (Suc i) records halts
      else if length rec \<noteq> 8 then Panic ''malformed record''
      else parseLoop_main (Suc i) records
             (halts @ [\<lparr>HaltDate = rec ! 0, HaltTime = rec ! 1, Symbol_main = rec ! 2,
                         Name_main = rec ! 3, Exchange_main = rec ! 4, Reason_main = rec ! 5,
                         ResumeDate = rec ! 6, NYSETime = rec ! 7\<rparr>]))"

text \<open>
  What an HTTP GET gives the program: the status code, what \<open>ReadAll\<close> makes of the body,
  and \<open>resp.Header.Get("Last-Modified")\<close> (the empty string when the header is absent).
\<close>

record Response =
  StatusCode :: int
  Body :: "error + string list list"
  LastModified :: string

definition StatusOK :: int where
  "StatusOK = 200"

definition fetchTradeHalts_main :: "error + Response \<Rightarrow> TradeHalt_main list result" where
  "fetchTradeHalts_main get =
     (case get of
        Inl err \<Rightarrow> Err (Errorf ''failed to fetch trade halts'' err)
      | Inr resp \<Rightarrow>
          if StatusCode resp \<noteq> StatusOK then Err (BadStatusCode (StatusCode resp))
          else (case Body resp of
                  Inl err \<Rightarrow> Err (Errorf ''failed to read csv'' err)
                | Inr records \<Rightarrow>
                    if length records < 2 then Ok []
                    else parseLoop_main 0 records []))"

section \<open>Rendering\<close>

definition tab :: string where
  "tab = [CHR 0x09]"

definition newline :: string where
  "newline = [CHR 0x0A]"

definition bellSound :: string where
  "bellSound = [CHR 0x07]"

definition clearScreen :: string where
  \<comment> \<open>\<open>"\033[2J\033[H"\<close>\<close>
  "clearScreen = [CHR 0x1B] @ ''[2J'' @ [CHR 0x1B] @ ''[H''"

definition haltTimeLocal :: "library \<Rightarrow> TradeHalt \<Rightarrow> string" where
  "haltTimeLocal lib halt =
     (if \<not> IsZero (HaltDateTime halt) then LocalFormat lib layoutDateTime (HaltDateTime halt)
      else [])"

definition resumeTimeLocal :: "library \<Rightarrow> TradeHalt \<Rightarrow> string" where
  "resumeTimeLocal lib halt =
     (if \<not> IsZero (ResumeDateTime halt) then LocalFormat lib layoutDateTime (ResumeDateTime halt)
      else [])"

text \<open>The six arguments of the row's \<open>Fprintf\<close>, and the text it writes.\<close>

definition haltCells :: "library \<Rightarrow> TradeHalt \<Rightarrow> string list" where
  "haltCells lib halt =
     [Symbol halt, Name halt, Exchange halt, Reason halt,
      haltTimeLocal lib halt, resumeTimeLocal lib halt]"

fun tabSeparated :: "string list \<Rightarrow> string" where
  "tabSeparated [] = newline"
| "tabSeparated [c] = c @ newline"
| "tabSeparated (c # cs) = c @ tab @ tabSeparated cs"

text \<open>
  \<open>displayHaltsTable\<close>: the lines handed to the tabwriter, which aligns the columns and
  writes them to standard output at \<open>Flush\<close>.
\<close>

definition displayHaltsTable :: "library \<Rightarrow> TradeHalt list \<Rightarrow> string list" where
  "displayHaltsTable lib halts =
     [tabSeparated [''SYMBOL'', ''NAME'', ''EXCHANGE'', ''REASON'', ''HALT TIME (LOCAL)'',
                    ''RESUME TIME (LOCAL)''],
      tabSeparated [''------'', ''----'', ''--------'', ''------'', ''-----------------'',
                    ''-------------------'']]
     @ map (\<lambda>halt. tabSeparated (haltCells lib halt)) halts"

section \<open>The snapshot differ\<close>

text \<open>
  The inner loop of \<open>WatchCmd.Run\<close> in part_001, over \<open>currentHalts\<close> in order. The
  state is the map \<open>prevHalts\<close> and the flag \<open>haltsUpdated\<close>.
\<close>

fun diffLoop :: "TradeHalt list \<Rightarrow> (string \<rightharpoonup> TradeHalt) \<Rightarrow> bool \<Rightarrow> (string \<rightharpoonup> TradeHalt) \<times> bool" where
  "diffLoop [] prevHalts haltsUpdated = (prevHalts, haltsUpdated)"
| "diffLoop (halt # currentHalts) prevHalts haltsUpdated =
     (case prevHalts (Symbol halt) of
        Some prevHalt \<Rightarrow>
          if ResumeDateTime prevHalt \<noteq> ResumeDateTime halt
          then diffLoop currentHalts (prevHalts(Symbol halt \<mapsto> halt)) True
          else diffLoop currentHalts prevHalts haltsUpdated
      | None \<Rightarrow> diffLoop currentHalts (prevHalts(Symbol halt \<mapsto> halt)) True)"

definition diffHalts :: "TradeHalt list \<Rightarrow> (string \<rightharpoonup> TradeHalt) \<Rightarrow> (string \<rightharpoonup> TradeHalt) \<times> bool" where
  \<comment> \<open>\<open>haltsUpdated := false\<close>, then the loop\<close>
  "diffHalts currentHalts prevHalts = diffLoop currentHalts prevHalts False"

text \<open>
  The outer loop keeps \<open>prevHalts\<close> from one cycle to the next: the map after a series of
  fetches that all rendered.
\<close>

fun prevHaltsAfter :: "TradeHalt list list \<Rightarrow> (string \<rightharpoonup> TradeHalt) \<Rightarrow> (string \<rightharpoonup> TradeHalt)" where
  "prevHaltsAfter [] prevHalts = prevHalts"
| "prevHaltsAfter (currentHalts # fetches) prevHalts =
     prevHaltsAfter fetches (fst (diffHalts currentHalts prevHalts))"

text \<open>A record that the loop stores when it meets it with the map \<open>prev\<close>.\<close>

definition changes :: "(string \<rightharpoonup> TradeHalt) \<Rightarrow> TradeHalt \<Rightarrow> bool" where
  "changes prev h =
     (case prev (Symbol h) of None \<Rightarrow> True
      | Some p \<Rightarrow> ResumeDateTime p \<noteq> ResumeDateTime h)"

text \<open>
  The same loop in main.go: \<open>lastHalts\<close> is a \<open>map[string]struct{}\<close>, a set of symbols,
  and the flag is \<open>newHalts\<close>.
\<close>

fun diffLoop_main :: "TradeHalt_main list \<Rightarrow> string set \<Rightarrow> bool \<Rightarrow> string set \<times> bool" where
  "diffLoop_main [] lastHalts newHalts = (lastHalts, newHalts)"
| "diffLoop_main (halt # currentHalts) lastHalts newHalts =
     (if Symbol_main halt \<notin> lastHalts
      then diffLoop_main currentHalts (insert (Symbol_main halt) lastHalts) True
      else diffLoop_main currentHalts lastHalts newHalts)"

definition diffHalts_main :: "TradeHalt_main list \<Rightarrow> string set \<Rightarrow> string set \<times> bool" where
  "diffHalts_main currentHalts lastHalts = diffLoop_main currentHalts lastHalts False"

section \<open>Fetching and one cycle of the watch loop (last revision)\<close>

definition fetchTradeHalts :: "library \<Rightarrow> error + Response \<Rightarrow> (TradeHalt list \<times> Time) result \<times> string list" where
  "fetchTradeHalts lib get =
     (case get of
        Inl err \<Rightarrow> (Err (Errorf ''failed to fetch trade halts'' err), [])
      | Inr resp \<Rightarrow>
          if StatusCode resp \<noteq> StatusOK then (Err (BadStatusCode (StatusCode resp)), [])
          else (case parseTradeHalts lib (Body resp) of
                  (Panic msg, logs) \<Rightarrow> (Panic msg, logs)
                | (Err err, logs) \<Rightarrow> (Err (Errorf ''failed to parse trade halts'' err), logs)
                | (Ok halts, logs) \<Rightarrow>
                    (case Parse lib RFC1123 (LastModified resp) of
                       Inl err \<Rightarrow>
                         (Err (Errorf ''failed to parse last modified header'' (LibError err)), logs)
                     | Inr lastModified \<Rightarrow> (Ok (halts, lastModified), logs))))"

text \<open>\<open>displayFunc\<close>; \<open>now\<close> is \<open>time.Now().Format(time.RFC1123Z)\<close>.\<close>

definition displayFunc :: "library \<Rightarrow> string \<Rightarrow> TradeHalt list \<Rightarrow> Time \<Rightarrow> string list" where
  "displayFunc lib now halts lastModified =
     [clearScreen] @ displayHaltsTable lib halts @ [newline]
     @ [''Last fetch'' @ tab @ ''@ '' @ now @ newline,
        ''Last updated'' @ tab @ ''@ '' @ LocalFormat lib RFC1123Z lastModified @ newline]"

text \<open>
  One pass of the \<open>for\<close> loop of \<open>WatchCmd.Run\<close>, up to the wait on the ticker. Either the
  cycle renders, giving the new \<open>prevHalts\<close> and what was printed, or \<open>log.Fatal\<close> ends
  the process with the error, or the parser's panic does.
\<close>

datatype cycle =
    Rendered "string \<rightharpoonup> TradeHalt" "string list"
  | LogFatal error
  | Panicked string

definition watchCycle :: "library \<Rightarrow> string \<Rightarrow> error + Response \<Rightarrow> (string \<rightharpoonup> TradeHalt) \<Rightarrow> cycle" where
  "watchCycle lib now get prevHalts =
     (case fst (fetchTradeHalts lib get) of
        Err err \<Rightarrow> LogFatal err
      | Panic msg \<Rightarrow> Panicked msg
      | Ok (currentHalts, lastModified) \<Rightarrow>
          (case diffHalts currentHalts prevHalts of
             (prevHalts', haltsUpdated) \<Rightarrow>
               Rendered prevHalts'
                 ((if haltsUpdated then [bellSound] else [])
                  @ displayFunc lib now currentHalts lastModified)))"

fun rendered :: "cycle \<Rightarrow> bool" where
  "rendered (Rendered prevHalts out) = True"
| "rendered (LogFatal err) = False"
| "rendered (Panicked msg) = False"

section \<open>A sample library and sample rows\<close>

text \<open>
  Concrete answers of the library for the concrete evaluations below: two timestamps of
  the feed that parse, one Last-Modified value that parses, one quoted name that
  unquotes; everything else is rejected, as Go rejects the empty string and text that is
  no date.
\<close>

definition t0930 :: Time where
  "t0930 = \<lparr>wall = 0, ext = 63844900200, loc = Some nyseLocation\<rparr>"

definition t1000 :: Time where
  "t1000 = \<lparr>wall = 0, ext = 63844902000, loc = Some nyseLocation\<rparr>"

definition t1001 :: Time where
  "t1001 = \<lparr>wall = 0, ext = 63844902060, loc = None\<rparr>"

definition sampleParseInLocation :: "string \<Rightarrow> string \<Rightarrow> string + Time" where
  "sampleParseInLocation layout v =
     (if v = ''2024-03-01 09:30:00'' then Inr t0930
      else if v = ''2024-03-01 10:00:00'' then Inr t1000
      else Inl ''cannot parse'')"

definition sampleUnquote :: "string \<Rightarrow> string option" where
  "sampleUnquote s = (if s = [CHR 0x22] @ ''Acme Corp'' @ [CHR 0x22] then Some ''Acme Corp'' else None)"

definition sampleParse :: "string \<Rightarrow> string \<Rightarrow> string + Time" where
  "sampleParse layout v =
     (if v = ''Fri, 01 Mar 2024 15:01:00 GMT'' then Inr t1001 else Inl ''cannot parse'')"

definition sampleLocalFormat :: "string \<Rightarrow> Time \<Rightarrow> string" where
  "sampleLocalFormat layout t =
     (if layout = RFC1123Z then ''Fri, 01 Mar 2024 10:01:00 -0500''
      else if t = t0930 then ''2024-03-01 09:30:00''
      else ''2024-03-01 10:00:00'')"

definition sampleLibrary :: library where
  "sampleLibrary = \<lparr>ParseInLocation = sampleParseInLocation, Unquote = sampleUnquote,
                     Parse = sampleParse, LocalFormat = sampleLocalFormat\<rparr>"

definition headerRow :: "string list" where
  "headerRow = [''Halt Date'', ''Halt Time'', ''Symbol'', ''Name'', ''Exchange'', ''Reason'',
                ''Resume Date'', ''NYSE Resume Time'']"

text \<open>A quoted issuer name and a plain one.\<close>

definition quotedRow :: "string list" where
  "quotedRow = [''2024-03-01'', ''09:30:00'', ''ACME'', [CHR 0x22] @ ''Acme Corp'' @ [CHR 0x22], ''NYSE'',
                ''LULD pause'', ''2024-03-01'', ''10:00:00'']"

definition plainRow :: "string list" where
  "plainRow = [''2024-03-01'', ''09:30:00'', ''AAPL'', ''Apple Inc'', ''NYSE'', ''News pending'', [], []]"

text \<open>A row with no halt date and time, and a row whose halt date and time are no timestamp.\<close>

definition undatedRow :: "string list" where
  "undatedRow = [[], [], ''XYZ'', ''Xyz Corp'', ''NYSE'', ''News pending'', ''2024-03-01'', ''10:00:00'']"

definition garbledRow :: "string list" where
  "garbledRow = [''03/01/2024'', ''9:30'', ''AAPL'', ''Apple Inc'', ''NYSE'', ''LULD pause'', ''2024-03-01'', []]"

text \<open>
  Records of the watch loop, and the two rows of a feed that lists two pauses of one symbol.
\<close>

definition aapl :: TradeHalt where
  "aapl = \<lparr>Symbol = ''AAPL'', Name = ''Apple Inc'', Exchange = ''NYSE'', Reason = ''LULD pause'',
           HaltDateTime = t0930, ResumeDateTime = zeroTime\<rparr>"

definition aaplResumed :: TradeHalt where
  "aaplResumed = \<lparr>Symbol = ''AAPL'', Name = ''Apple Inc'', Exchange = ''NYSE'', Reason = ''LULD pause'',
           HaltDateTime = t0930, ResumeDateTime = t1000\<rparr>"

definition aaplReworded :: TradeHalt where
  "aaplReworded = \<lparr>Symbol = ''AAPL'', Name = ''Apple Inc'', Exchange = ''NYSE'', Reason = ''News pending'',
           HaltDateTime = t0930, ResumeDateTime = zeroTime\<rparr>"

definition aaplSecondPause :: TradeHalt where
  "aaplSecondPause = \<lparr>Symbol = ''AAPL'', Name = ''Apple Inc'', Exchange = ''NYSE'', Reason = ''LULD pause'',
           HaltDateTime = t1000, ResumeDateTime = zeroTime\<rparr>"

definition tsla :: TradeHalt where
  "tsla = \<lparr>Symbol = ''TSLA'', Name = ''Tesla Inc'', Exchange = ''NYSE'', Reason = ''LULD pause'',
           HaltDateTime = t1000, ResumeDateTime = zeroTime\<rparr>"

definition firstPauseRow :: "string list" where
  "firstPauseRow = [''2024-03-01'', ''09:30:00'', ''AAPL'', ''Apple Inc'', ''NYSE'', ''LULD pause'',
                    ''2024-03-01'', ''10:00:00'']"

definition secondPauseRow :: "string list" where
  "secondPauseRow = [''2024-03-01'', ''10:00:00'', ''AAPL'', ''Apple Inc'', ''NYSE'', ''LULD pause'', [], []]"

definition fetchTime :: string where
  "fetchTime = ''Fri, 01 Mar 2024 10:05:00 -0500''"


text \<open>A feed whose header and only data row have seven fields.\<close>

definition shortHeader :: "string list" where
  "shortHeader = [''Halt Date'', ''Halt Time'', ''Symbol'', ''Name'', ''Exchange'', ''Reason'',
                  ''Resume Date'']"

definition shortRow :: "string list" where
  "shortRow = [''2024-03-01'', ''09:30:00'', ''AAPL'', ''Apple Inc'', ''NYSE'', ''LULD pause'', []]"

section \<open>The parsing loop\<close>

lemma parseLoop_rows:
  "0 < i \<Longrightarrow> list_all (\<lambda>rec. length rec = 8) rows \<Longrightarrow>
   parseLoop lib i rows halts logs =
     (Ok (halts @ map (\<lambda>rec. fst (parseRecord lib rec)) rows),
      logs @ concat (map (\<lambda>rec. snd (parseRecord lib rec)) rows))"
  by (induction rows arbitrary: i halts logs) (auto split: prod.splits)

lemma parseLoop_panic:
  "0 < i \<Longrightarrow> \<not> list_all (\<lambda>rec. length rec = 8) rows \<Longrightarrow>
   fst (parseLoop lib i rows halts logs) = Panic ''malformed record''"
  by (induction rows arbitrary: i halts logs) (auto split: prod.splits)

lemma parseLoop_main_panic:
  "0 < i \<Longrightarrow> \<not> list_all (\<lambda>rec. length rec = 8) rows \<Longrightarrow>
   parseLoop_main i rows halts = Panic ''malformed record''"
  by (induction rows arbitrary: i halts) auto

lemma parseTradeHalts_rows:
  "list_all (\<lambda>rec. length rec = 8) rows \<Longrightarrow>
   parseTradeHalts lib (Inr (hdr # rows)) =
     (Ok (map (\<lambda>rec. fst (parseRecord lib rec)) rows),
      concat (map (\<lambda>rec. snd (parseRecord lib rec)) rows))"
proof (cases rows)
  case Nil
  then show ?thesis by (simp add: parseTradeHalts_def)
next
  case (Cons rec rest)
  assume all: "list_all (\<lambda>rec. length rec = 8) rows"
  have "parseTradeHalts lib (Inr (hdr # rows)) = parseLoop lib (Suc 0) rows [] []"
    using Cons by (simp add: parseTradeHalts_def)
  also have "\<dots> = (Ok ([] @ map (\<lambda>rec. fst (parseRecord lib rec)) rows),
      [] @ concat (map (\<lambda>rec. snd (parseRecord lib rec)) rows))"
    using all by (intro parseLoop_rows) simp_all
  finally show ?thesis by simp
qed

lemma parseTradeHalts_panic:
  "\<not> list_all (\<lambda>rec. length rec = 8) rows \<Longrightarrow>
   fst (parseTradeHalts lib (Inr (hdr # rows))) = Panic ''malformed record''"
proof (cases rows)
  case Nil
  assume "\<not> list_all (\<lambda>rec. length rec = 8) rows"
  with Nil show ?thesis by simp
next
  case (Cons rec rest)
  assume bad: "\<not> list_all (\<lambda>rec. length rec = 8) rows"
  have "parseTradeHalts lib (Inr (hdr # rows)) = parseLoop lib (Suc 0) rows [] []"
    using Cons by (simp add: parseTradeHalts_def)
  moreover have "fst (parseLoop lib (Suc 0) rows [] []) = Panic ''malformed record''"
    using bad by (intro parseLoop_panic) simp_all
  ultimately show ?thesis by simp
qed

lemma parseRecord_fields:
  "parseRecord lib rec =
     (\<lparr>Symbol = rec ! 2, Name = tryUnquote lib (rec ! 3), Exchange = rec ! 4, Reason = rec ! 5,
       HaltDateTime = fst (parseDateTime lib ''halt'' (rec ! 2) (rec ! 0) (rec ! 1)),
       ResumeDateTime = fst (parseDateTime lib ''resume'' (rec ! 2) (rec ! 6) (rec ! 7))\<rparr>,
      snd (parseDateTime lib ''halt'' (rec ! 2) (rec ! 0) (rec ! 1))
      @ snd (parseDateTime lib ''resume'' (rec ! 2) (rec ! 6) (rec ! 7)))"
  by (simp add: parseRecord_def split: prod.splits)

lemma parseDateTime_empty:
  "d = [] \<or> t = [] \<Longrightarrow> parseDateTime lib what symbol d t = (zeroTime, [])"
  by (auto simp: parseDateTime_def)

lemma parseDateTime_failed:
  "d \<noteq> [] \<Longrightarrow> t \<noteq> [] \<Longrightarrow> ParseInLocation lib layoutDateTime (d @ '' '' @ t) = Inl err \<Longrightarrow>
   parseDateTime lib what symbol d t =
     (zeroTime, [''failed to parse '' @ what @ '' datetime for '' @ symbol @ '': '' @ err])"
  by (simp add: parseDateTime_def)

lemma IsZero_zeroTime: "IsZero zeroTime"
  by (simp add: IsZero_def zeroTime_def)

section \<open>The differ's loop\<close>

lemmas samples = aapl_def aaplResumed_def aaplReworded_def aaplSecondPause_def tsla_def
  t0930_def t1000_def zeroTime_def

lemma diffLoop_step:
  "diffLoop (x # cur) prev b =
     (if changes prev x then diffLoop cur (prev(Symbol x \<mapsto> x)) True else diffLoop cur prev b)"
  by (simp add: changes_def split: option.splits)

lemma diffLoop_flag_kept: "snd (diffLoop cur prev True) = True"
  by (induction cur arbitrary: prev) (simp_all only: diffLoop.simps(1) diffLoop_step snd_conv if_split, simp)

lemma diffLoop_dom: "dom prev \<subseteq> dom (fst (diffLoop cur prev b))"
proof (induction cur arbitrary: prev b)
  case Nil
  then show ?case by simp
next
  case (Cons x cur)
  show ?case
  proof (cases "changes prev x")
    case True
    have "dom prev \<subseteq> dom (prev(Symbol x \<mapsto> x))" by auto
    also have "\<dots> \<subseteq> dom (fst (diffLoop cur (prev(Symbol x \<mapsto> x)) True))" by (rule Cons.IH)
    finally show ?thesis using True by (simp only: diffLoop_step if_True)
  next
    case False
    then show ?thesis using Cons.IH [of prev b] by (simp only: diffLoop_step if_False)
  qed
qed

lemma diffLoop_other_symbol:
  "s \<notin> Symbol ` set cur \<Longrightarrow> fst (diffLoop cur prev b) s = prev s"
proof (induction cur arbitrary: prev b)
  case Nil
  then show ?case by simp
next
  case (Cons x cur)
  then have s: "s \<noteq> Symbol x" and rest: "s \<notin> Symbol ` set cur" by auto
  show ?case
  proof (cases "changes prev x")
    case True
    have "fst (diffLoop cur (prev(Symbol x \<mapsto> x)) True) s = (prev(Symbol x \<mapsto> x)) s"
      using rest by (rule Cons.IH)
    with s True show ?thesis by (simp add: diffLoop_step del: diffLoop.simps)
  next
    case False
    with Cons.IH [OF rest, of prev b] show ?thesis by (simp add: diffLoop_step del: diffLoop.simps)
  qed
qed

lemma diffLoop_alert:
  "h \<in> set cur \<Longrightarrow> changes prev h \<Longrightarrow> snd (diffLoop cur prev b) = True"
proof (induction cur arbitrary: prev b)
  case Nil
  then show ?case by simp
next
  case (Cons x cur)
  show ?case
  proof (cases "changes prev x")
    case True
    then show ?thesis
      by (simp add: diffLoop_step diffLoop_flag_kept del: diffLoop.simps)
  next
    case False
    with Cons.prems have "h \<in> set cur" by auto
    then have "snd (diffLoop cur prev b) = True" using Cons.prems(2) by (rule Cons.IH)
    with False show ?thesis by (simp add: diffLoop_step del: diffLoop.simps)
  qed
qed

lemma diffLoop_stored_from:
  "prev s = Some r \<Longrightarrow>
   fst (diffLoop cur prev b) s = Some r
   \<or> (\<exists>r'\<in>set cur. Symbol r' = s \<and> fst (diffLoop cur prev b) s = Some r')"
proof (induction cur arbitrary: prev b r)
  case Nil
  then show ?case by simp
next
  case (Cons x cur)
  define P where "P = prev(Symbol x \<mapsto> x)"
  show ?case
  proof (cases "changes prev x")
    case False
    then have step: "diffLoop (x # cur) prev b = diffLoop cur prev b"
      by (simp add: diffLoop_step del: diffLoop.simps)
    have "fst (diffLoop cur prev b) s = Some r
      \<or> (\<exists>r'\<in>set cur. Symbol r' = s \<and> fst (diffLoop cur prev b) s = Some r')"
      using Cons.prems by (rule Cons.IH)
    then show ?thesis unfolding step by auto
  next
    case True
    then have step: "diffLoop (x # cur) prev b = diffLoop cur P True"
      by (simp add: diffLoop_step P_def del: diffLoop.simps)
    show ?thesis
    proof (cases "Symbol x = s")
      case True
      then have "P s = Some x" by (simp add: P_def)
      then have "fst (diffLoop cur P True) s = Some x
        \<or> (\<exists>r'\<in>set cur. Symbol r' = s \<and> fst (diffLoop cur P True) s = Some r')"
        by (rule Cons.IH)
      with True show ?thesis unfolding step by auto
    next
      case False
      with Cons.prems have "P s = Some r" by (simp add: P_def)
      then have "fst (diffLoop cur P True) s = Some r
        \<or> (\<exists>r'\<in>set cur. Symbol r' = s \<and> fst (diffLoop cur P True) s = Some r')"
        by (rule Cons.IH)
      then show ?thesis unfolding step by auto
    qed
  qed
qed

lemma diffLoop_stored:
  "h \<in> set cur \<Longrightarrow> changes prev h \<Longrightarrow>
   \<exists>r\<in>set cur. Symbol r = Symbol h \<and> fst (diffLoop cur prev b) (Symbol h) = Some r"
proof (induction cur arbitrary: prev b)
  case Nil
  then show ?case by simp
next
  case (Cons x cur)
  define P where "P = prev(Symbol x \<mapsto> x)"
  show ?case
  proof (cases "changes prev x")
    case False
    with Cons.prems have "h \<in> set cur" by auto
    then have "\<exists>r\<in>set cur. Symbol r = Symbol h \<and> fst (diffLoop cur prev b) (Symbol h) = Some r"
      using Cons.prems(2) by (rule Cons.IH)
    moreover from False have "diffLoop (x # cur) prev b = diffLoop cur prev b"
      by (simp add: diffLoop_step del: diffLoop.simps)
    ultimately show ?thesis by auto
  next
    case True
    then have step: "diffLoop (x # cur) prev b = diffLoop cur P True"
      by (simp add: diffLoop_step P_def del: diffLoop.simps)
    show ?thesis
    proof (cases "Symbol x = Symbol h")
      case True
      then have "P (Symbol h) = Some x" by (simp add: P_def)
      then have "fst (diffLoop cur P True) (Symbol h) = Some x
        \<or> (\<exists>r'\<in>set cur. Symbol r' = Symbol h \<and> fst (diffLoop cur P True) (Symbol h) = Some r')"
        by (rule diffLoop_stored_from)
      with True show ?thesis unfolding step by auto
    next
      case False
      with Cons.prems have "h \<in> set cur" by auto
      moreover from False Cons.prems(2) have "changes P h"
        by (simp add: changes_def P_def)
      ultimately have "\<exists>r\<in>set cur. Symbol r = Symbol h \<and> fst (diffLoop cur P True) (Symbol h) = Some r"
        by (rule Cons.IH)
      then show ?thesis unfolding step by auto
    qed
  qed
qed

lemma diffLoop_unchanged:
  "\<forall>h\<in>set cur. \<not> changes prev h \<Longrightarrow> diffLoop cur prev b = (prev, b)"
  by (induction cur) (simp_all add: diffLoop_step del: diffLoop.simps(2))

lemma diffLoop_skip_symbol:
  "prev s = Some p \<Longrightarrow> \<forall>h\<in>set cur. Symbol h = s \<longrightarrow> ResumeDateTime h = ResumeDateTime p \<Longrightarrow>
   diffLoop cur prev b = diffLoop (filter (\<lambda>h. Symbol h \<noteq> s) cur) prev b"
proof (induction cur arbitrary: prev b)
  case Nil
  then show ?case by simp
next
  case (Cons x cur)
  define P where "P = prev(Symbol x \<mapsto> x)"
  from Cons.prems(2) have rest: "\<forall>h\<in>set cur. Symbol h = s \<longrightarrow> ResumeDateTime h = ResumeDateTime p"
    by simp
  show ?case
  proof (cases "Symbol x = s")
    case True
    with Cons.prems have "\<not> changes prev x" by (simp add: changes_def)
    then have "diffLoop (x # cur) prev b = diffLoop cur prev b"
      by (simp add: diffLoop_step del: diffLoop.simps(2))
    also have "\<dots> = diffLoop (filter (\<lambda>h. Symbol h \<noteq> s) cur) prev b"
      using Cons.prems(1) rest by (rule Cons.IH)
    finally show ?thesis using True by simp
  next
    case False
    then have keep: "filter (\<lambda>h. Symbol h \<noteq> s) (x # cur) = x # filter (\<lambda>h. Symbol h \<noteq> s) cur"
      by simp
    from False Cons.prems(1) have "P s = Some p" by (simp add: P_def)
    then have 1: "diffLoop cur P True = diffLoop (filter (\<lambda>h. Symbol h \<noteq> s) cur) P True"
      using rest by (rule Cons.IH)
    have 2: "diffLoop cur prev b = diffLoop (filter (\<lambda>h. Symbol h \<noteq> s) cur) prev b"
      using Cons.prems(1) rest by (rule Cons.IH)
    show ?thesis unfolding keep diffLoop_step P_def [symmetric] using 1 2 by simp
  qed
qed

lemma diffLoop_keeps_entry:
  "prev s = Some p \<Longrightarrow> \<forall>h\<in>set cur. Symbol h = s \<longrightarrow> ResumeDateTime h = ResumeDateTime p \<Longrightarrow>
   fst (diffLoop cur prev b) s = Some p"
proof -
  assume p: "prev s = Some p"
    and same: "\<forall>h\<in>set cur. Symbol h = s \<longrightarrow> ResumeDateTime h = ResumeDateTime p"
  then have "diffLoop cur prev b = diffLoop (filter (\<lambda>h. Symbol h \<noteq> s) cur) prev b"
    by (rule diffLoop_skip_symbol)
  moreover have "fst (diffLoop (filter (\<lambda>h. Symbol h \<noteq> s) cur) prev b) s = prev s"
    by (rule diffLoop_other_symbol) auto
  ultimately show ?thesis using p by simp
qed

text \<open>After the loop, the stored record of each symbol that occurs once carries that row's resume time.\<close>

lemma diffLoop_resume_stored:
  "distinct (map Symbol cur) \<Longrightarrow> h \<in> set cur \<Longrightarrow>
   \<exists>r. fst (diffLoop cur prev b) (Symbol h) = Some r \<and> ResumeDateTime r = ResumeDateTime h"
proof (induction cur arbitrary: prev b)
  case Nil
  then show ?case by simp
next
  case (Cons x cur)
  define P where "P = prev(Symbol x \<mapsto> x)"
  from Cons.prems(1) have fresh: "Symbol x \<notin> Symbol ` set cur" and dist: "distinct (map Symbol cur)"
    by simp_all
  show ?case
  proof (cases "h = x")
    case True
    show ?thesis
    proof (cases "changes prev x")
      case True
      then have "diffLoop (x # cur) prev b = diffLoop cur P True"
        by (simp add: diffLoop_step P_def del: diffLoop.simps(2))
      moreover have "fst (diffLoop cur P True) (Symbol x) = P (Symbol x)"
        using fresh by (rule diffLoop_other_symbol)
      ultimately show ?thesis using \<open>h = x\<close> by (simp add: P_def)
    next
      case False
      then obtain r where r: "prev (Symbol x) = Some r" "ResumeDateTime r = ResumeDateTime x"
        by (auto simp: changes_def split: option.splits)
      from False have "diffLoop (x # cur) prev b = diffLoop cur prev b"
        by (simp add: diffLoop_step del: diffLoop.simps(2))
      moreover have "fst (diffLoop cur prev b) (Symbol x) = prev (Symbol x)"
        using fresh by (rule diffLoop_other_symbol)
      ultimately show ?thesis using \<open>h = x\<close> r by simp
    qed
  next
    case False
    with Cons.prems(2) have h: "h \<in> set cur" by simp
    have 1: "\<exists>r. fst (diffLoop cur P True) (Symbol h) = Some r \<and> ResumeDateTime r = ResumeDateTime h"
      using dist h by (rule Cons.IH)
    have 2: "\<exists>r. fst (diffLoop cur prev b) (Symbol h) = Some r \<and> ResumeDateTime r = ResumeDateTime h"
      using dist h by (rule Cons.IH)
    show ?thesis unfolding diffLoop_step P_def [symmetric] using 1 2 by simp
  qed
qed

lemma diffHalts_idempotent_distinct:
  "distinct (map Symbol cur) \<Longrightarrow>
   diffHalts cur (fst (diffHalts cur prev)) = (fst (diffHalts cur prev), False)"
proof -
  assume dist: "distinct (map Symbol cur)"
  have "\<forall>h\<in>set cur. \<not> changes (fst (diffLoop cur prev False)) h"
  proof
    fix h assume "h \<in> set cur"
    with dist obtain r where "fst (diffLoop cur prev False) (Symbol h) = Some r"
      "ResumeDateTime r = ResumeDateTime h"
      using diffLoop_resume_stored by blast
    then show "\<not> changes (fst (diffLoop cur prev False)) h" by (simp add: changes_def)
  qed
  then show ?thesis unfolding diffHalts_def by (rule diffLoop_unchanged)
qed

text \<open>The loop of \<^verbatim>\<open>src/main.go\<close>.\<close>

lemma diffLoop_main_flag_kept: "snd (diffLoop_main cur known True) = True"
  by (induction cur arbitrary: known) simp_all

lemma diffLoop_main_subset: "known \<subseteq> fst (diffLoop_main cur known b)"
proof (induction cur arbitrary: known b)
  case Nil
  then show ?case by simp
next
  case (Cons x cur)
  have "known \<subseteq> insert (Symbol_main x) known" by auto
  also have "\<dots> \<subseteq> fst (diffLoop_main cur (insert (Symbol_main x) known) True)" by (rule Cons.IH)
  finally show ?case using Cons.IH [of known b] by simp
qed

lemma diffLoop_main_symbols: "Symbol_main ` set cur \<subseteq> fst (diffLoop_main cur known b)"
proof (induction cur arbitrary: known b)
  case Nil
  then show ?case by simp
next
  case (Cons x cur)
  have "Symbol_main x \<in> fst (diffLoop_main cur (insert (Symbol_main x) known) True)"
    using diffLoop_main_subset [of "insert (Symbol_main x) known" cur True] by auto
  moreover have "Symbol_main x \<in> known \<Longrightarrow> Symbol_main x \<in> fst (diffLoop_main cur known b)"
    using diffLoop_main_subset [of known cur b] by auto
  ultimately show ?case
    using Cons.IH [of known b] Cons.IH [of "insert (Symbol_main x) known" True] by simp
qed

lemma diffLoop_main_unchanged:
  "Symbol_main ` set cur \<subseteq> known \<Longrightarrow> diffLoop_main cur known b = (known, b)"
  by (induction cur) simp_all

lemma diffHalts_main_new_symbol:
  "h \<in> set cur \<Longrightarrow> Symbol_main h \<notin> known \<Longrightarrow>
   snd (diffLoop_main cur known b) = True \<and> Symbol_main h \<in> fst (diffLoop_main cur known b)"
proof (induction cur arbitrary: known b)
  case Nil
  then show ?case by simp
next
  case (Cons x cur)
  show ?case
  proof (cases "Symbol_main x \<in> known")
    case True
    with Cons.prems have "h \<in> set cur" by auto
    with Cons.IH [of known b] Cons.prems(2) True show ?thesis by simp
  next
    case False
    have "Symbol_main h \<in> fst (diffLoop_main (x # cur) known b)"
      using diffLoop_main_symbols [of "x # cur" known b] Cons.prems(1) by auto
    with False show ?thesis by (simp add: diffLoop_main_flag_kept)
  qed
qed

lemma diffHalts_main_idempotent:
  "diffHalts_main cur (fst (diffHalts_main cur known)) = (fst (diffHalts_main cur known), False)"
  unfolding diffHalts_main_def by (rule diffLoop_main_unchanged) (rule diffLoop_main_symbols)

lemma prevHaltsAfter_dom: "dom prev \<subseteq> dom (prevHaltsAfter fetches prev)"
proof (induction fetches arbitrary: prev)
  case Nil
  then show ?case by simp
next
  case (Cons cur fetches)
  have "dom prev \<subseteq> dom (fst (diffHalts cur prev))"
    unfolding diffHalts_def by (rule diffLoop_dom)
  also have "\<dots> \<subseteq> dom (prevHaltsAfter fetches (fst (diffHalts cur prev)))" by (rule Cons.IH)
  finally show ?case by simp
qed


section \<open>Fetching\<close>

lemma fetchTradeHalts_last_modified_failed:
  "Parse lib RFC1123 (LastModified resp) = Inl msg \<Longrightarrow>
   (\<exists>err. fst (fetchTradeHalts lib (Inr resp)) = Err err)
   \<or> (\<exists>m. fst (fetchTradeHalts lib (Inr resp)) = Panic m)"
  by (auto simp: fetchTradeHalts_def split: prod.splits result.splits)

lemma watchCycle_renders:
  "StatusCode resp = StatusOK \<Longrightarrow> fst (parseTradeHalts lib (Body resp)) = Ok halts \<Longrightarrow>
   Parse lib RFC1123 (LastModified resp) = Inr lastModified \<Longrightarrow>
   watchCycle lib now (Inr resp) prev =
     Rendered (fst (diffHalts halts prev))
       ((if snd (diffHalts halts prev) then [bellSound] else [])
        @ displayFunc lib now halts lastModified)"
  by (cases "parseTradeHalts lib (Body resp)")
     (simp add: watchCycle_def fetchTradeHalts_def split: prod.splits)


section \<open>Header-only and empty input\<close>

text \<open>
  C8. When the reader yields fewer than two rows (no row at all, or the header alone),
  \<open>parseTradeHalts\<close> returns the empty sequence and no error, and logs nothing.
\<close>

theorem parseTradeHalts_fewer_than_two_rows:
  "length records < 2 \<Longrightarrow> parseTradeHalts lib (Inr records) = (Ok [], [])"
  by (simp add: parseTradeHalts_def)

theorem parseTradeHalts_fewer_than_two_rows_witness:
  "length [headerRow] < 2
   \<and> parseTradeHalts sampleLibrary (Inr [headerRow]) = (Ok [], [])
   \<and> parseTradeHalts sampleLibrary (Inr []) = (Ok [], [])"
  using parseTradeHalts_fewer_than_two_rows [of "[headerRow]" sampleLibrary]
        parseTradeHalts_fewer_than_two_rows [of "[]" sampleLibrary]
  by simp

section \<open>Malformed rows\<close>

text \<open>
  C2. Whenever a data row (any row after the first) has a field count other than 8, the
  parse aborts: \<open>parseTradeHalts\<close> panics with \<open>malformed record\<close> and returns no
  records, in \<^verbatim>\<open>src/main.go\<close> (where the loop is part of \<open>fetchTradeHalts\<close>) as in
  part_001, and the panic passes through \<open>fetchTradeHalts\<close> unchanged. When the CSV
  reader itself rejects the input, its error is returned wrapped, again with no records:
  the reader is used with its default \<open>FieldsPerRecord = 0\<close>, so it already rejects a
  row whose field count differs from the first row's, and the panic is what happens when
  header and data rows share a count other than 8. The spec's \<open>MalformedFeedError\<close> is
  its name for these two outcomes.
\<close>

theorem malformed_row_aborts:
  assumes "rec \<in> set rows" and "length rec \<noteq> 8"
  shows "fst (parseTradeHalts lib (Inr (hdr # rows))) = Panic ''malformed record''
       \<and> fetchTradeHalts_main (Inr \<lparr>StatusCode = StatusOK, Body = Inr (hdr # rows), LastModified = lm\<rparr>)
           = Panic ''malformed record''
       \<and> fst (fetchTradeHalts lib (Inr \<lparr>StatusCode = StatusOK, Body = Inr (hdr # rows), LastModified = lm\<rparr>))
           = Panic ''malformed record''
       \<and> fst (parseTradeHalts lib (Inl err)) = Err (Errorf ''failed to read csv'' err)"
proof -
  from assms have bad: "\<not> list_all (\<lambda>rec. length rec = 8) rows"
    by (auto simp: list_all_iff)
  then have rows: "rows \<noteq> []" by auto
  have 1: "fst (parseTradeHalts lib (Inr (hdr # rows))) = Panic ''malformed record''"
    using bad by (rule parseTradeHalts_panic)
  have 2: "fetchTradeHalts_main (Inr \<lparr>StatusCode = StatusOK, Body = Inr (hdr # rows), LastModified = lm\<rparr>)
           = Panic ''malformed record''"
    using rows bad by (cases rows) (simp_all add: fetchTradeHalts_main_def parseLoop_main_panic)
  have 3: "fst (fetchTradeHalts lib (Inr \<lparr>StatusCode = StatusOK, Body = Inr (hdr # rows), LastModified = lm\<rparr>))
           = Panic ''malformed record''"
    using 1 by (cases "parseTradeHalts lib (Inr (hdr # rows))") (simp add: fetchTradeHalts_def)
  have 4: "fst (parseTradeHalts lib (Inl err)) = Err (Errorf ''failed to read csv'' err)"
    by (simp add: parseTradeHalts_def)
  from 1 2 3 4 show ?thesis by simp
qed

theorem malformed_row_aborts_witness:
  "shortRow \<in> set [shortRow] \<and> length shortRow \<noteq> 8
   \<and> fst (parseTradeHalts sampleLibrary (Inr [shortHeader, shortRow])) = Panic ''malformed record''
   \<and> fetchTradeHalts_main (Inr \<lparr>StatusCode = StatusOK, Body = Inr [shortHeader, shortRow], LastModified = []\<rparr>)
       = Panic ''malformed record''"
  using malformed_row_aborts [of shortRow "[shortRow]" sampleLibrary shortHeader "[]"]
  by (simp add: shortRow_def)

section \<open>The header row and the field count\<close>

text \<open>
  C10. The length of the first row is never looked at: replacing the header by any other
  row leaves the result unchanged. With no row or one row, the function returns the empty
  sequence before the loop, whatever the field count of that row. Both hold for
  \<open>parseTradeHalts\<close> of part_001 and for \<open>fetchTradeHalts\<close> of \<^verbatim>\<open>src/main.go\<close>.
\<close>

theorem header_row_not_checked:
  "parseTradeHalts lib (Inr (hdr # rows)) = parseTradeHalts lib (Inr (hdr' # rows))
   \<and> parseTradeHalts lib (Inr []) = (Ok [], [])
   \<and> parseTradeHalts lib (Inr [rec]) = (Ok [], [])
   \<and> fetchTradeHalts_main (Inr \<lparr>StatusCode = StatusOK, Body = Inr (hdr # rows), LastModified = lm\<rparr>)
     = fetchTradeHalts_main (Inr \<lparr>StatusCode = StatusOK, Body = Inr (hdr' # rows), LastModified = lm\<rparr>)
   \<and> fetchTradeHalts_main (Inr \<lparr>StatusCode = StatusOK, Body = Inr [], LastModified = lm\<rparr>) = Ok []
   \<and> fetchTradeHalts_main (Inr \<lparr>StatusCode = StatusOK, Body = Inr [rec], LastModified = lm\<rparr>) = Ok []"
  by (simp add: parseTradeHalts_def fetchTradeHalts_main_def)

section \<open>Timestamps that are missing or do not parse\<close>

text \<open>
  C7. Take any feed whose data rows all have eight fields, and any of its rows. The parse
  succeeds and returns one record per row, whatever the date and time fields hold. If
  the halt date or the halt time of the row is empty, the record's halt timestamp is the
  zero time and the row logs nothing for it. If both are non-empty and
  \<open>time.ParseInLocation\<close> rejects them, the timestamp is the zero time again and exactly
  one line \<open>failed to parse halt datetime for <symbol>: <error>\<close> is logged. The same
  holds for the resume pair. A record whose halt timestamp is zero is rendered with the
  empty string in the halt-time column.
\<close>

theorem absent_timestamps:
  fixes lib :: library and rows :: "string list list" and i :: nat
  defines "rec \<equiv> rows ! i"
  defines "halt \<equiv> fst (parseRecord lib rec)"
  defines "haltLog \<equiv> snd (parseDateTime lib ''halt'' (rec ! 2) (rec ! 0) (rec ! 1))"
  defines "resumeLog \<equiv> snd (parseDateTime lib ''resume'' (rec ! 2) (rec ! 6) (rec ! 7))"
  assumes "list_all (\<lambda>rec. length rec = 8) rows" and "i < length rows"
  shows "parseTradeHalts lib (Inr (hdr # rows))
           = (Ok (map (\<lambda>rec. fst (parseRecord lib rec)) rows),
              concat (map (\<lambda>rec. snd (parseRecord lib rec)) rows))
       \<and> map (\<lambda>rec. fst (parseRecord lib rec)) rows ! i = halt
       \<and> snd (parseRecord lib rec) = haltLog @ resumeLog
       \<and> (rec ! 0 = [] \<or> rec ! 1 = [] \<longrightarrow>
            HaltDateTime halt = zeroTime \<and> haltLog = [] \<and> haltCells lib halt ! 4 = [])
       \<and> (rec ! 6 = [] \<or> rec ! 7 = [] \<longrightarrow>
            ResumeDateTime halt = zeroTime \<and> resumeLog = [] \<and> haltCells lib halt ! 5 = [])
       \<and> (\<forall>err. rec ! 0 \<noteq> [] \<and> rec ! 1 \<noteq> []
              \<and> ParseInLocation lib layoutDateTime (rec ! 0 @ '' '' @ rec ! 1) = Inl err \<longrightarrow>
            HaltDateTime halt = zeroTime
            \<and> haltLog = [''failed to parse halt datetime for '' @ rec ! 2 @ '': '' @ err]
            \<and> haltCells lib halt ! 4 = [])
       \<and> (\<forall>err. rec ! 6 \<noteq> [] \<and> rec ! 7 \<noteq> []
              \<and> ParseInLocation lib layoutDateTime (rec ! 6 @ '' '' @ rec ! 7) = Inl err \<longrightarrow>
            ResumeDateTime halt = zeroTime
            \<and> resumeLog = [''failed to parse resume datetime for '' @ rec ! 2 @ '': '' @ err]
            \<and> haltCells lib halt ! 5 = [])
       \<and> IsZero zeroTime
       \<and> (\<forall>h. IsZero (HaltDateTime h) \<longrightarrow> haltCells lib h ! 4 = [])"
proof -
  have whole: "parseTradeHalts lib (Inr (hdr # rows))
           = (Ok (map (\<lambda>rec. fst (parseRecord lib rec)) rows),
              concat (map (\<lambda>rec. snd (parseRecord lib rec)) rows))"
    using assms(5) by (rule parseTradeHalts_rows)
  have nth: "map (\<lambda>rec. fst (parseRecord lib rec)) rows ! i = halt"
    using assms(6) by (simp add: halt_def rec_def)
  have logs: "snd (parseRecord lib rec) = haltLog @ resumeLog"
    by (simp add: parseRecord_fields haltLog_def resumeLog_def)
  have hd: "HaltDateTime halt = fst (parseDateTime lib ''halt'' (rec ! 2) (rec ! 0) (rec ! 1))"
    and rd: "ResumeDateTime halt = fst (parseDateTime lib ''resume'' (rec ! 2) (rec ! 6) (rec ! 7))"
    by (simp_all add: halt_def parseRecord_fields)
  have cell4: "HaltDateTime halt = zeroTime \<Longrightarrow> haltCells lib halt ! 4 = []"
    by (simp add: haltCells_def haltTimeLocal_def IsZero_zeroTime)
  have cell5: "ResumeDateTime halt = zeroTime \<Longrightarrow> haltCells lib halt ! 5 = []"
    by (simp add: haltCells_def resumeTimeLocal_def IsZero_zeroTime)
  have h_empty: "rec ! 0 = [] \<or> rec ! 1 = [] \<longrightarrow>
            HaltDateTime halt = zeroTime \<and> haltLog = [] \<and> haltCells lib halt ! 4 = []"
    using cell4 by (auto simp: hd haltLog_def parseDateTime_empty)
  have r_empty: "rec ! 6 = [] \<or> rec ! 7 = [] \<longrightarrow>
            ResumeDateTime halt = zeroTime \<and> resumeLog = [] \<and> haltCells lib halt ! 5 = []"
    using cell5 by (auto simp: rd resumeLog_def parseDateTime_empty)
  have h_failed: "\<forall>err. rec ! 0 \<noteq> [] \<and> rec ! 1 \<noteq> []
              \<and> ParseInLocation lib layoutDateTime (rec ! 0 @ '' '' @ rec ! 1) = Inl err \<longrightarrow>
            HaltDateTime halt = zeroTime
            \<and> haltLog = [''failed to parse halt datetime for '' @ rec ! 2 @ '': '' @ err]
            \<and> haltCells lib halt ! 4 = []"
    using cell4 by (auto simp: hd haltLog_def parseDateTime_failed)
  have r_failed: "\<forall>err. rec ! 6 \<noteq> [] \<and> rec ! 7 \<noteq> []
              \<and> ParseInLocation lib layoutDateTime (rec ! 6 @ '' '' @ rec ! 7) = Inl err \<longrightarrow>
            ResumeDateTime halt = zeroTime
            \<and> resumeLog = [''failed to parse resume datetime for '' @ rec ! 2 @ '': '' @ err]
            \<and> haltCells lib halt ! 5 = []"
    using cell5 by (auto simp: rd resumeLog_def parseDateTime_failed)
  have zero_cell: "\<forall>h. IsZero (HaltDateTime h) \<longrightarrow> haltCells lib h ! 4 = []"
    by (simp add: haltCells_def haltTimeLocal_def)
  from whole nth logs h_empty r_empty h_failed r_failed IsZero_zeroTime zero_cell show ?thesis
    by blast
qed

theorem absent_timestamps_witness:
  "list_all (\<lambda>rec. length rec = 8) [undatedRow, garbledRow]
   \<and> parseTradeHalts sampleLibrary (Inr [headerRow, undatedRow, garbledRow])
      = (Ok [\<lparr>Symbol = ''XYZ'', Name = ''Xyz Corp'', Exchange = ''NYSE'', Reason = ''News pending'',
              HaltDateTime = zeroTime, ResumeDateTime = t1000\<rparr>,
             \<lparr>Symbol = ''AAPL'', Name = ''Apple Inc'', Exchange = ''NYSE'', Reason = ''LULD pause'',
              HaltDateTime = zeroTime, ResumeDateTime = zeroTime\<rparr>],
         [''failed to parse halt datetime for AAPL: cannot parse''])
   \<and> haltCells sampleLibrary (fst (parseRecord sampleLibrary undatedRow))
      = [''XYZ'', ''Xyz Corp'', ''NYSE'', ''News pending'', [], ''2024-03-01 10:00:00'']
   \<and> haltCells sampleLibrary (fst (parseRecord sampleLibrary garbledRow)) ! 4 = []"
  using absent_timestamps [of "[undatedRow, garbledRow]" 0 sampleLibrary headerRow]
        absent_timestamps [of "[undatedRow, garbledRow]" 1 sampleLibrary headerRow]
  by (simp add: undatedRow_def garbledRow_def sampleLibrary_def sampleParseInLocation_def
        sampleUnquote_def sampleLocalFormat_def parseRecord_fields parseDateTime_def tryUnquote_def
        haltCells_def haltTimeLocal_def resumeTimeLocal_def IsZero_def zeroTime_def t1000_def t0930_def
        layoutDateTime_def RFC1123Z_def)

section \<open>The issuer name\<close>

text \<open>
  C9. For every data row of a feed that parses, the record's name is \<open>tryUnquote\<close> of
  field 3: the unquoted string when \<open>strconv.Unquote\<close> succeeds, and the field itself,
  unchanged, when it fails.
\<close>

theorem name_unquoted_or_raw:
  assumes "list_all (\<lambda>rec. length rec = 8) rows" and "i < length rows"
  shows "\<exists>halts. fst (parseTradeHalts lib (Inr (hdr # rows))) = Ok halts
           \<and> length halts = length rows
           \<and> Name (halts ! i) = tryUnquote lib (rows ! i ! 3)
           \<and> tryUnquote lib (rows ! i ! 3)
              = (case Unquote lib (rows ! i ! 3) of None \<Rightarrow> rows ! i ! 3 | Some unquoted \<Rightarrow> unquoted)"
  using assms by (simp add: parseTradeHalts_rows parseRecord_fields tryUnquote_def)

theorem name_unquoted_or_raw_witness:
  "list_all (\<lambda>rec. length rec = 8) [quotedRow, plainRow]
   \<and> (\<exists>halts. fst (parseTradeHalts sampleLibrary (Inr [headerRow, quotedRow, plainRow])) = Ok halts
         \<and> Name (halts ! 0) = ''Acme Corp'' \<and> Name (halts ! 1) = ''Apple Inc'')"
  using name_unquoted_or_raw [of "[quotedRow, plainRow]" 0 sampleLibrary headerRow]
        name_unquoted_or_raw [of "[quotedRow, plainRow]" 1 sampleLibrary headerRow]
  by (auto simp: quotedRow_def plainRow_def sampleLibrary_def sampleUnquote_def)

section \<open>New halts and resume-time updates\<close>

text \<open>
  C1. Take any record \<open>h\<close> of the current fetch. If its symbol is absent from
  \<open>prevHalts\<close>, or is present there with a different resume timestamp (the zero time
  against a parsed one included, since the comparison is \<open>!=\<close> on \<open>time.Time\<close>), the
  differ signals an alert, and afterwards \<open>prevHalts\<close> maps the symbol to a record of
  the current fetch with that symbol: to \<open>h\<close> itself when \<open>h\<close> is the symbol's only
  record in the fetch. The loop of \<^verbatim>\<open>src/main.go\<close> has the first half only
  (\<open>diffHalts_main_new_symbol\<close>): it stores symbols, not records.
\<close>

theorem new_or_updated_halt_alerts:
  assumes "h \<in> set cur"
    and "prev (Symbol h) = None
         \<or> (\<exists>p. prev (Symbol h) = Some p \<and> ResumeDateTime p \<noteq> ResumeDateTime h)"
  shows "snd (diffHalts cur prev) = True
       \<and> (\<exists>r\<in>set cur. Symbol r = Symbol h \<and> fst (diffHalts cur prev) (Symbol h) = Some r)
       \<and> ((\<forall>h'\<in>set cur. Symbol h' = Symbol h \<longrightarrow> h' = h) \<longrightarrow>
            fst (diffHalts cur prev) (Symbol h) = Some h)"
proof -
  from assms(2) have ch: "changes prev h"
    by (auto simp: changes_def)
  have alert: "snd (diffHalts cur prev) = True"
    unfolding diffHalts_def using assms(1) ch by (rule diffLoop_alert)
  have stored: "\<exists>r\<in>set cur. Symbol r = Symbol h \<and> fst (diffHalts cur prev) (Symbol h) = Some r"
    unfolding diffHalts_def using assms(1) ch by (rule diffLoop_stored)
  from alert stored show ?thesis by auto
qed

theorem new_or_updated_halt_alerts_witness:
  "tsla \<in> set [aaplResumed, tsla] \<and> [''AAPL'' \<mapsto> aapl] (Symbol tsla) = None
   \<and> aaplResumed \<in> set [aaplResumed, tsla] \<and> [''AAPL'' \<mapsto> aapl] (Symbol aaplResumed) = Some aapl
   \<and> ResumeDateTime aapl \<noteq> ResumeDateTime aaplResumed
   \<and> snd (diffHalts [aaplResumed, tsla] [''AAPL'' \<mapsto> aapl]) = True
   \<and> fst (diffHalts [aaplResumed, tsla] [''AAPL'' \<mapsto> aapl]) ''TSLA'' = Some tsla
   \<and> fst (diffHalts [aaplResumed, tsla] [''AAPL'' \<mapsto> aapl]) ''AAPL'' = Some aaplResumed"
  using new_or_updated_halt_alerts [of tsla "[aaplResumed, tsla]" "[''AAPL'' \<mapsto> aapl]"]
        new_or_updated_halt_alerts [of aaplResumed "[aaplResumed, tsla]" "[''AAPL'' \<mapsto> aapl]"]
  by (simp add: samples)


section \<open>Unchanged resume time\<close>

text \<open>
  C5. Take a symbol stored in \<open>prevHalts\<close> with record \<open>p\<close> whose rows in the current
  fetch all carry the resume timestamp of \<open>p\<close>; their other fields are free. Then the
  stored record is still \<open>p\<close> after the differ, and the differ returns exactly what it
  returns on the fetch without those rows, map and alert flag alike: they contribute
  nothing. When the fetch has no other rows, the map is unchanged and no alert is signalled.
\<close>

theorem same_resume_time_untouched:
  assumes "prev s = Some p"
    and "\<forall>h\<in>set cur. Symbol h = s \<longrightarrow> ResumeDateTime h = ResumeDateTime p"
  shows "fst (diffHalts cur prev) s = Some p
       \<and> diffHalts cur prev = diffHalts (filter (\<lambda>h. Symbol h \<noteq> s) cur) prev
       \<and> ((\<forall>h\<in>set cur. Symbol h = s) \<longrightarrow> diffHalts cur prev = (prev, False))"
proof -
  have kept: "fst (diffHalts cur prev) s = Some p"
    unfolding diffHalts_def using assms by (rule diffLoop_keeps_entry)
  have skip: "diffHalts cur prev = diffHalts (filter (\<lambda>h. Symbol h \<noteq> s) cur) prev"
    unfolding diffHalts_def using assms by (rule diffLoop_skip_symbol)
  have "diffHalts cur prev = (prev, False)" if "\<forall>h\<in>set cur. Symbol h = s"
  proof -
    from that have "filter (\<lambda>h. Symbol h \<noteq> s) cur = []" by (simp add: filter_empty_conv)
    with skip show ?thesis by (simp add: diffHalts_def)
  qed
  with kept skip show ?thesis by blast
qed

theorem same_resume_time_untouched_witness:
  "[''AAPL'' \<mapsto> aapl] ''AAPL'' = Some aapl
   \<and> ResumeDateTime aaplReworded = ResumeDateTime aapl \<and> Reason aaplReworded \<noteq> Reason aapl
   \<and> fst (diffHalts [aaplReworded, tsla] [''AAPL'' \<mapsto> aapl]) ''AAPL'' = Some aapl
   \<and> diffHalts [aaplReworded, tsla] [''AAPL'' \<mapsto> aapl] = diffHalts [tsla] [''AAPL'' \<mapsto> aapl]
   \<and> diffHalts [aaplReworded] [''AAPL'' \<mapsto> aapl] = ([''AAPL'' \<mapsto> aapl], False)"
  using same_resume_time_untouched [of "[''AAPL'' \<mapsto> aapl]" "''AAPL''" aapl "[aaplReworded, tsla]"]
        same_resume_time_untouched [of "[''AAPL'' \<mapsto> aapl]" "''AAPL''" aapl "[aaplReworded]"]
  by (simp add: samples diffHalts_def)


section \<open>Nothing is removed\<close>

text \<open>
  C6. Every symbol of \<open>prevHalts\<close> before the differ runs is still mapped to a record
  after it, for one cycle and for any series of cycles; the set of symbols of
  \<^verbatim>\<open>src/main.go\<close> only grows as well.
\<close>

theorem differ_never_removes:
  "dom prev \<subseteq> dom (fst (diffHalts cur prev))
   \<and> dom prev \<subseteq> dom (prevHaltsAfter fetches prev)
   \<and> known \<subseteq> fst (diffHalts_main cur_main known)"
  by (simp add: prevHaltsAfter_dom diffLoop_dom diffLoop_main_subset diffHalts_def diffHalts_main_def)


section \<open>The same snapshot twice\<close>

text \<open>
  C4. Feeding the same fetch twice signals no alert the second time when no symbol occurs
  twice in it (\<open>diffHalts_idempotent_distinct\<close>), and always in \<^verbatim>\<open>src/main.go\<close>
  (\<open>diffHalts_main_idempotent\<close>). The loop of part_001 does not have the property for
  every fetch: a feed that lists two pauses of one symbol with different resume times
  makes the first row differ from the stored second row on every pass, so the alert is
  signalled on each cycle although the feed never changes. The theorem evaluates the code
  on such a feed: the first pass and the pass after it both signal an alert, and the map
  after the second pass is the map before it.
\<close>

theorem repeated_symbol_alerts_every_cycle:
  "fst (parseTradeHalts sampleLibrary (Inr [headerRow, firstPauseRow, secondPauseRow]))
     = Ok [aaplResumed, aaplSecondPause]
   \<and> diffHalts [aaplResumed, aaplSecondPause] Map.empty = ([''AAPL'' \<mapsto> aaplSecondPause], True)
   \<and> diffHalts [aaplResumed, aaplSecondPause] [''AAPL'' \<mapsto> aaplSecondPause]
     = ([''AAPL'' \<mapsto> aaplSecondPause], True)"
  by (simp add: parseTradeHalts_def parseRecord_fields parseDateTime_def tryUnquote_def
      firstPauseRow_def secondPauseRow_def sampleLibrary_def sampleParseInLocation_def
      sampleUnquote_def diffHalts_def samples)

section \<open>A response without a usable Last-Modified header\<close>

text \<open>
  C3. In the last revision \<open>fetchTradeHalts\<close> returns the error
  \<open>failed to parse last modified header\<close> when \<open>time.Parse\<close> rejects the header value,
  and the watch loop passes every fetch error to \<open>log.Fatal\<close>. So a cycle whose response
  has no parsable Last-Modified header never renders; with status 200 and a body that
  parses, it ends in \<open>log.Fatal\<close> with exactly that error.
\<close>

theorem unparsable_last_modified_is_fatal:
  assumes "Parse lib RFC1123 (LastModified resp) = Inl msg"
  shows "\<not> rendered (watchCycle lib now (Inr resp) prev)
       \<and> (StatusCode resp = StatusOK \<and> fst (parseTradeHalts lib (Body resp)) = Ok halts \<longrightarrow>
            fst (fetchTradeHalts lib (Inr resp))
              = Err (Errorf ''failed to parse last modified header'' (LibError msg))
            \<and> watchCycle lib now (Inr resp) prev
              = LogFatal (Errorf ''failed to parse last modified header'' (LibError msg)))"
proof -
  from fetchTradeHalts_last_modified_failed [OF assms]
  have 1: "\<not> rendered (watchCycle lib now (Inr resp) prev)"
    by (auto simp: watchCycle_def)
  have 2: "fst (fetchTradeHalts lib (Inr resp))
              = Err (Errorf ''failed to parse last modified header'' (LibError msg))"
    if "StatusCode resp = StatusOK" and "fst (parseTradeHalts lib (Body resp)) = Ok halts"
    using that assms by (cases "parseTradeHalts lib (Body resp)") (simp add: fetchTradeHalts_def)
  then have 3: "watchCycle lib now (Inr resp) prev
              = LogFatal (Errorf ''failed to parse last modified header'' (LibError msg))"
    if "StatusCode resp = StatusOK" and "fst (parseTradeHalts lib (Body resp)) = Ok halts"
    using that by (simp add: watchCycle_def)
  from 1 2 3 show ?thesis by blast
qed

theorem unparsable_last_modified_is_fatal_witness:
  "Parse sampleLibrary RFC1123 (LastModified \<lparr>StatusCode = 200, Body = Inr [headerRow, firstPauseRow],
        LastModified = ''yesterday''\<rparr>) = Inl ''cannot parse''
   \<and> fst (parseTradeHalts sampleLibrary (Inr [headerRow, firstPauseRow])) = Ok [aaplResumed]
   \<and> watchCycle sampleLibrary fetchTime
        (Inr \<lparr>StatusCode = 200, Body = Inr [headerRow, firstPauseRow], LastModified = ''yesterday''\<rparr>)
        Map.empty
      = LogFatal (Errorf ''failed to parse last modified header'' (LibError ''cannot parse''))"
  using unparsable_last_modified_is_fatal [of sampleLibrary
      "\<lparr>StatusCode = 200, Body = Inr [headerRow, firstPauseRow], LastModified = ''yesterday''\<rparr>"
      "''cannot parse''" fetchTime Map.empty "[aaplResumed]"]
  by (simp add: parseTradeHalts_def parseRecord_fields parseDateTime_def tryUnquote_def
      firstPauseRow_def sampleLibrary_def sampleParseInLocation_def sampleParse_def
      sampleUnquote_def StatusOK_def samples)


text \<open>
  The claim as the spec words it, at a response with status 200, a well-formed body and no
  Last-Modified header: the cycle does not render, it ends in \<open>log.Fatal\<close>.
\<close>

theorem missing_last_modified_counterexample:
  "fst (parseTradeHalts sampleLibrary (Inr [headerRow, plainRow]))
     = Ok [\<lparr>Symbol = ''AAPL'', Name = ''Apple Inc'', Exchange = ''NYSE'', Reason = ''News pending'',
             HaltDateTime = t0930, ResumeDateTime = zeroTime\<rparr>]
   \<and> watchCycle sampleLibrary fetchTime
        (Inr \<lparr>StatusCode = 200, Body = Inr [headerRow, plainRow], LastModified = []\<rparr>) Map.empty
      = LogFatal (Errorf ''failed to parse last modified header'' (LibError ''cannot parse''))
   \<and> \<not> rendered (watchCycle sampleLibrary fetchTime
        (Inr \<lparr>StatusCode = 200, Body = Inr [headerRow, plainRow], LastModified = []\<rparr>) Map.empty)"
  by (simp add: watchCycle_def fetchTradeHalts_def parseTradeHalts_def parseRecord_fields
      parseDateTime_def tryUnquote_def plainRow_def sampleLibrary_def sampleParseInLocation_def
      sampleParse_def sampleUnquote_def StatusOK_def samples)


text \<open>With a header that parses, the same cycle renders and shows it as \<open>Last updated\<close>.\<close>

lemma watchCycle_renders_example:
  "watchCycle sampleLibrary fetchTime
        (Inr \<lparr>StatusCode = 200, Body = Inr [headerRow, plainRow],
               LastModified = ''Fri, 01 Mar 2024 15:01:00 GMT''\<rparr>) Map.empty
   = Rendered [''AAPL'' \<mapsto> aaplReworded]
       [bellSound, clearScreen,
        ''SYMBOL'' @ tab @ ''NAME'' @ tab @ ''EXCHANGE'' @ tab @ ''REASON'' @ tab
          @ ''HALT TIME (LOCAL)'' @ tab @ ''RESUME TIME (LOCAL)'' @ newline,
        ''------'' @ tab @ ''----'' @ tab @ ''--------'' @ tab @ ''------'' @ tab
          @ ''-----------------'' @ tab @ ''-------------------'' @ newline,
        ''AAPL'' @ tab @ ''Apple Inc'' @ tab @ ''NYSE'' @ tab @ ''News pending'' @ tab
          @ ''2024-03-01 09:30:00'' @ tab @ newline,
        newline,
        ''Last fetch'' @ tab @ ''@ Fri, 01 Mar 2024 10:05:00 -0500'' @ newline,
        ''Last updated'' @ tab @ ''@ Fri, 01 Mar 2024 10:01:00 -0500'' @ newline]"
  by (simp add: watchCycle_def fetchTradeHalts_def parseTradeHalts_def parseRecord_fields
      parseDateTime_def tryUnquote_def plainRow_def sampleLibrary_def sampleParseInLocation_def
      sampleParse_def sampleUnquote_def sampleLocalFormat_def StatusOK_def samples diffHalts_def
      displayFunc_def displayHaltsTable_def haltCells_def haltTimeLocal_def resumeTimeLocal_def
      IsZero_def fetchTime_def t1001_def RFC1123Z_def layoutDateTime_def)

end
